theory Spec2Isabelle
  imports Complex_Main
begin

section \<open>The affine matrices of the backend\<close>

text \<open>
  The program builds on pycairo. \<^verbatim>\<open>cairo.Matrix\<close> holds the six coefficients of an affine
  map; a point \<open>(x, y)\<close> is sent to \<open>(xx * x + xy * y + x0, yx * x + yy * y + y0)\<close>.
  Python floats are idealised as real numbers throughout: rounding, infinities and NaN
  are not modelled.
\<close>

record matrix =
  xx :: real
  yx :: real
  xy :: real
  yy :: real
  x0 :: real
  y0 :: real

text \<open>A Python value that a transform can hand back: \<^verbatim>\<open>None\<close> or a matrix object.\<close>

datatype pyval = PyNone | PyMatrix matrix

datatype error = TypeError | AttributeError | CairoError

text \<open>\<^verbatim>\<open>cairo.Matrix()\<close>: the defaults of the constructor are those of the identity.\<close>

definition Matrix :: matrix where
  "Matrix = \<lparr>xx = 1, yx = 0, xy = 0, yy = 1, x0 = 0, y0 = 0\<rparr>"

text \<open>
  \<^verbatim>\<open>a.multiply(b)\<close> returns a new matrix, the product of cairo: its effect is to apply
  \<open>a\<close> to the coordinates first and \<open>b\<close> after it.
\<close>

definition Matrix_multiply :: "matrix \<Rightarrow> matrix \<Rightarrow> matrix" where
  "Matrix_multiply a b =
     \<lparr>xx = xx a * xx b + yx a * xy b,
      yx = xx a * yx b + yx a * yy b,
      xy = xy a * xx b + yy a * xy b,
      yy = xy a * yx b + yy a * yy b,
      x0 = x0 a * xx b + y0 a * xy b + x0 b,
      y0 = x0 a * yx b + y0 a * yy b + y0 b\<rparr>"

definition init_scale :: "real \<Rightarrow> real \<Rightarrow> matrix" where
  "init_scale sx sy = \<lparr>xx = sx, yx = 0, xy = 0, yy = sy, x0 = 0, y0 = 0\<rparr>"

definition init_translate :: "real \<Rightarrow> real \<Rightarrow> matrix" where
  "init_translate tx ty = \<lparr>xx = 1, yx = 0, xy = 0, yy = 1, x0 = tx, y0 = ty\<rparr>"

text \<open>\<^verbatim>\<open>cairo.Matrix.init_rotate(radians)\<close> returns a new matrix.\<close>

definition Matrix_init_rotate :: "real \<Rightarrow> matrix" where
  "Matrix_init_rotate radians =
     \<lparr>xx = cos radians, yx = sin radians, xy = - sin radians, yy = cos radians,
      x0 = 0, y0 = 0\<rparr>"

text \<open>
  \<^verbatim>\<open>m.scale(sx, sy)\<close> and \<^verbatim>\<open>m.translate(tx, ty)\<close> change the receiver in place and
  return \<^verbatim>\<open>None\<close>. Each is modelled as the pair of the value returned and the receiver
  after the call.
\<close>

definition Matrix_scale :: "matrix \<Rightarrow> real \<Rightarrow> real \<Rightarrow> pyval \<times> matrix" where
  "Matrix_scale m sx sy = (PyNone, Matrix_multiply (init_scale sx sy) m)"

definition Matrix_translate :: "matrix \<Rightarrow> real \<Rightarrow> real \<Rightarrow> pyval \<times> matrix" where
  "Matrix_translate m tx ty = (PyNone, Matrix_multiply (init_translate tx ty) m)"

definition Matrix_transform_point :: "matrix \<Rightarrow> real \<times> real \<Rightarrow> real \<times> real" where
  "Matrix_transform_point m p =
     (xx m * fst p + xy m * snd p + x0 m, yx m * fst p + yy m * snd p + y0 m)"

definition determinant :: "matrix \<Rightarrow> real" where
  "determinant m = xx m * yy m - yx m * xy m"


section \<open>Transforms\<close>

text \<open>
  The class \<^verbatim>\<open>Transform\<close> and its six subclasses. The constructor \<open>Transform\<close> stands for
  an instance of the base class itself, whose \<^verbatim>\<open>__call__\<close> executes
  \<^verbatim>\<open>raise NotImplemented\<close>, a \<^verbatim>\<open>TypeError\<close> in Python 3.
\<close>

datatype transform =
    Transform
  | Identity
  | ReflectX
  | ReflectY
  | Rotate real
  | Translate real real
  | Compose transform transform

text \<open>
  \<^verbatim>\<open>__call__\<close>, by dynamic dispatch on the class.

  \<^item> \<^verbatim>\<open>ReflectX\<close> and \<^verbatim>\<open>ReflectY\<close> rebind the local variable \<^verbatim>\<open>matrix\<close> to what
    \<^verbatim>\<open>matrix.scale(...)\<close> returns, and return that.
  \<^item> \<^verbatim>\<open>Translate\<close> discards what \<^verbatim>\<open>matrix.translate(...)\<close> returns and returns the
    matrix object it has changed.
  \<^item> \<^verbatim>\<open>Compose\<close> evaluates \<^verbatim>\<open>self.u().multiply(self.t())\<close> from left to right:
    \<^verbatim>\<open>self.u()\<close>, then the lookup of \<^verbatim>\<open>multiply\<close> on its value (an
    \<^verbatim>\<open>AttributeError\<close> on \<^verbatim>\<open>None\<close>), then \<^verbatim>\<open>self.t()\<close>, then the call (a
    \<^verbatim>\<open>TypeError\<close> when the argument is not a matrix).
\<close>

fun Transform_call :: "transform \<Rightarrow> error + pyval" where
  "Transform_call Transform = Inl TypeError"
| "Transform_call Identity = Inr (PyMatrix Matrix)"
| "Transform_call ReflectX = Inr (fst (Matrix_scale Matrix (- 1) 1))"
| "Transform_call ReflectY = Inr (fst (Matrix_scale Matrix 1 (- 1)))"
| "Transform_call (Rotate \<theta>) = Inr (PyMatrix (Matrix_init_rotate \<theta>))"
| "Transform_call (Translate dx dy) = Inr (PyMatrix (snd (Matrix_translate Matrix dx dy)))"
| "Transform_call (Compose t u) =
     (case Transform_call u of
        Inl e \<Rightarrow> Inl e
      | Inr PyNone \<Rightarrow> Inl AttributeError
      | Inr (PyMatrix a) \<Rightarrow>
          (case Transform_call t of
             Inl e \<Rightarrow> Inl e
           | Inr PyNone \<Rightarrow> Inl TypeError
           | Inr (PyMatrix b) \<Rightarrow> Inr (PyMatrix (Matrix_multiply a b))))"


section \<open>Colours\<close>

text \<open>
  The class \<^verbatim>\<open>Color\<close> and its dataclass \<^verbatim>\<open>RGB\<close>. \<open>Color\<close> stands for an instance of
  the base class, whose \<^verbatim>\<open>to_float\<close> executes \<^verbatim>\<open>raise NotImplemented\<close>. The division
  of \<^verbatim>\<open>RGB.to_float\<close> is Python's true division.
\<close>

type_synonym rgb = "real \<times> real \<times> real"

datatype color = Color | RGB int int int

fun to_float :: "color \<Rightarrow> error + rgb" where
  "to_float Color = Inl TypeError"
| "to_float (RGB r g b) = Inr (real_of_int r / 255, real_of_int g / 255, real_of_int b / 255)"


section \<open>Primitives and the object store\<close>

text \<open>
  The fields that the subclasses of \<^verbatim>\<open>Primitive\<close> add. \<open>Primitive\<close> stands for an
  instance of the base class. \<^verbatim>\<open>Rectangle.__init__\<close> takes the height before the width.
\<close>

datatype shape =
    Primitive
  | Circle (radius: real) (center: complex)
  | Rectangle (width: real) (height: real) (center: complex)

record primitive =
  transform :: transform
  fill_color :: "rgb option"
  stroke_color :: rgb
  stroke_width :: real
  shape :: shape

text \<open>
  Primitives and diagrams are Python objects: they are shared by reference and updated
  in place. The store keeps the objects of each class in a list; a reference is an index
  into it, and a new object is appended, so that it gets a reference no object had
  before. A reference that the store does not hold stands for a Python value of another
  type, on which the attribute access raises \<^verbatim>\<open>AttributeError\<close>. A diagram object holds
  its attribute \<^verbatim>\<open>shapes\<close>, a list of references to primitives; the program never
  changes such a list in place, it only binds the attribute to a new list.

  A method that can raise returns the error or its value, together with the store as the
  call left it.
\<close>

type_synonym ref = nat

record heap =
  primitives :: "primitive list"
  diagrams :: "ref list list"

text \<open>The store before any object has been created.\<close>

definition empty_heap :: heap where
  "empty_heap = \<lparr>primitives = [], diagrams = []\<rparr>"

definition Primitive_init :: "shape \<Rightarrow> primitive" where
  "Primitive_init sh =
     \<lparr>transform = Identity, fill_color = None, stroke_color = (0.0, 0.0, 0.0),
      stroke_width = 0.01, shape = sh\<rparr>"

definition new_primitive :: "primitive \<Rightarrow> heap \<Rightarrow> ref \<times> heap" where
  "new_primitive obj h = (length (primitives h), h\<lparr>primitives := primitives h @ [obj]\<rparr>)"

definition Circle_init :: "real \<Rightarrow> heap \<Rightarrow> ref \<times> heap" where
  "Circle_init r h = new_primitive (Primitive_init (Circle r (Complex 0.0 0.0))) h"

definition Rectangle_init :: "real \<Rightarrow> real \<Rightarrow> heap \<Rightarrow> ref \<times> heap" where
  "Rectangle_init hgt wid h = new_primitive (Primitive_init (Rectangle wid hgt (Complex 0 0))) h"

text \<open>
  The common shape of the five setters: assign one attribute of \<^verbatim>\<open>self\<close>, then
  \<^verbatim>\<open>return self\<close>. The colour setters call \<^verbatim>\<open>color.to_float()\<close> before they
  assign, so that nothing is assigned when that call raises.
\<close>

definition assign :: "ref \<Rightarrow> (primitive \<Rightarrow> primitive) \<Rightarrow> heap \<Rightarrow> (error + ref) \<times> heap" where
  "assign self f h =
     (if self < length (primitives h)
      then (Inr self, h\<lparr>primitives := (primitives h)[self := f (primitives h ! self)]\<rparr>)
      else (Inl AttributeError, h))"

definition Primitive_rotate :: "ref \<Rightarrow> real \<Rightarrow> heap \<Rightarrow> (error + ref) \<times> heap" where
  "Primitive_rotate self \<theta> h =
     assign self (\<lambda>p. p\<lparr>transform := Compose (Rotate \<theta>) (transform p)\<rparr>) h"

definition Primitive_translate :: "ref \<Rightarrow> real \<Rightarrow> real \<Rightarrow> heap \<Rightarrow> (error + ref) \<times> heap" where
  "Primitive_translate self dx dy h =
     assign self (\<lambda>p. p\<lparr>transform := Compose (Translate dx dy) (transform p)\<rparr>) h"

definition Primitive_set_fill_color :: "ref \<Rightarrow> color \<Rightarrow> heap \<Rightarrow> (error + ref) \<times> heap" where
  "Primitive_set_fill_color self c h =
     (if self < length (primitives h)
      then (case to_float c of
              Inl e \<Rightarrow> (Inl e, h)
            | Inr v \<Rightarrow> assign self (\<lambda>p. p\<lparr>fill_color := Some v\<rparr>) h)
      else (Inl AttributeError, h))"

definition Primitive_set_stroke_color :: "ref \<Rightarrow> color \<Rightarrow> heap \<Rightarrow> (error + ref) \<times> heap" where
  "Primitive_set_stroke_color self c h =
     (if self < length (primitives h)
      then (case to_float c of
              Inl e \<Rightarrow> (Inl e, h)
            | Inr v \<Rightarrow> assign self (\<lambda>p. p\<lparr>stroke_color := v\<rparr>) h)
      else (Inl AttributeError, h))"

definition Primitive_set_stroke_width :: "ref \<Rightarrow> real \<Rightarrow> heap \<Rightarrow> (error + ref) \<times> heap" where
  "Primitive_set_stroke_width self w h = assign self (\<lambda>p. p\<lparr>stroke_width := w\<rparr>) h"

text \<open>
  A chain \<^verbatim>\<open>p.op1(...).op2(...)...\<close>: every call is made on the value that the call
  before it returned.
\<close>

datatype setter =
    DoRotate real
  | DoTranslate real real
  | DoSetFillColor color
  | DoSetStrokeColor color
  | DoSetStrokeWidth real

fun call_setter :: "setter \<Rightarrow> ref \<Rightarrow> heap \<Rightarrow> (error + ref) \<times> heap" where
  "call_setter (DoRotate \<theta>) self = Primitive_rotate self \<theta>"
| "call_setter (DoTranslate dx dy) self = Primitive_translate self dx dy"
| "call_setter (DoSetFillColor c) self = Primitive_set_fill_color self c"
| "call_setter (DoSetStrokeColor c) self = Primitive_set_stroke_color self c"
| "call_setter (DoSetStrokeWidth w) self = Primitive_set_stroke_width self w"

fun chain :: "setter list \<Rightarrow> ref \<Rightarrow> heap \<Rightarrow> (error + ref) \<times> heap" where
  "chain [] self h = (Inr self, h)"
| "chain (c # cs) self h =
     (case call_setter c self h of
        (Inl e, h') \<Rightarrow> (Inl e, h')
      | (Inr r, h') \<Rightarrow> chain cs r h')"

text \<open>What one setter does to the fields of the object it is called on.\<close>

fun setting :: "setter \<Rightarrow> primitive \<Rightarrow> primitive" where
  "setting (DoRotate \<theta>) p = p\<lparr>transform := Compose (Rotate \<theta>) (transform p)\<rparr>"
| "setting (DoTranslate dx dy) p = p\<lparr>transform := Compose (Translate dx dy) (transform p)\<rparr>"
| "setting (DoSetFillColor c) p =
     (case to_float c of Inl e \<Rightarrow> p | Inr v \<Rightarrow> p\<lparr>fill_color := Some v\<rparr>)"
| "setting (DoSetStrokeColor c) p =
     (case to_float c of Inl e \<Rightarrow> p | Inr v \<Rightarrow> p\<lparr>stroke_color := v\<rparr>)"
| "setting (DoSetStrokeWidth w) p = p\<lparr>stroke_width := w\<rparr>"

fun concrete_color :: "setter \<Rightarrow> bool" where
  "concrete_color (DoSetFillColor c) = (c \<noteq> Color)"
| "concrete_color (DoSetStrokeColor c) = (c \<noteq> Color)"
| "concrete_color s = True"


section \<open>Diagrams\<close>

definition new_diagram :: "ref list \<Rightarrow> heap \<Rightarrow> (error + ref) \<times> heap" where
  "new_diagram shapes h = (Inr (length (diagrams h)), h\<lparr>diagrams := diagrams h @ [shapes]\<rparr>)"

definition Primitive_overlay :: "ref \<Rightarrow> ref \<Rightarrow> heap \<Rightarrow> (error + ref) \<times> heap" where
  "Primitive_overlay self other h = new_diagram [self, other] h"

definition Diagram_empty :: "heap \<Rightarrow> (error + ref) \<times> heap" where
  "Diagram_empty h = new_diagram [] h"

definition Diagram_add_primitive :: "ref \<Rightarrow> ref \<Rightarrow> heap \<Rightarrow> (error + ref) \<times> heap" where
  "Diagram_add_primitive self s h =
     (if self < length (diagrams h)
      then (Inr self, h\<lparr>diagrams := (diagrams h)[self := diagrams h ! self @ [s]]\<rparr>)
      else (Inl AttributeError, h))"

text \<open>\<^verbatim>\<open>__add__\<close>: \<^verbatim>\<open>Diagram(self.shapes + other.shapes)\<close>.\<close>

definition Diagram_add :: "ref \<Rightarrow> ref \<Rightarrow> heap \<Rightarrow> (error + ref) \<times> heap" where
  "Diagram_add self other h =
     (if self < length (diagrams h) \<and> other < length (diagrams h)
      then new_diagram (diagrams h ! self @ diagrams h ! other) h
      else (Inl AttributeError, h))"

text \<open>
  The list comprehension of \<^verbatim>\<open>fmap\<close>: \<^verbatim>\<open>f\<close> is called on the elements from left to
  right, each call working on the store that the calls before it left.
\<close>

fun comprehension ::
  "(ref \<Rightarrow> heap \<Rightarrow> (error + ref) \<times> heap) \<Rightarrow> ref list \<Rightarrow> heap \<Rightarrow> (error + ref list) \<times> heap"
where
  "comprehension f [] h = (Inr [], h)"
| "comprehension f (s # ss) h =
     (case f s h of
        (Inl e, h') \<Rightarrow> (Inl e, h')
      | (Inr r, h') \<Rightarrow>
          (case comprehension f ss h' of
             (Inl e, h'') \<Rightarrow> (Inl e, h'')
           | (Inr rs, h'') \<Rightarrow> (Inr (r # rs), h'')))"

definition Diagram_fmap ::
  "ref \<Rightarrow> (ref \<Rightarrow> heap \<Rightarrow> (error + ref) \<times> heap) \<Rightarrow> heap \<Rightarrow> (error + ref) \<times> heap"
where
  "Diagram_fmap self f h =
     (if self < length (diagrams h)
      then (case comprehension f (diagrams h ! self) h of
              (Inl e, h') \<Rightarrow> (Inl e, h')
            | (Inr rs, h') \<Rightarrow> new_diagram rs h')
      else (Inl AttributeError, h))"

definition Diagram_translate :: "ref \<Rightarrow> real \<Rightarrow> real \<Rightarrow> heap \<Rightarrow> (error + ref) \<times> heap" where
  "Diagram_translate self dx dy h =
     Diagram_fmap self (\<lambda>shape. Primitive_translate shape dx dy) h"


section \<open>The drawing context\<close>

text \<open>
  \<^verbatim>\<open>cairo.Context\<close>, as far as the renderer uses it. The graphics state that
  \<^verbatim>\<open>save\<close> pushes and \<^verbatim>\<open>restore\<close> pops holds the current transformation matrix, the
  paint source and the line width; the current path is not part of it. The context also
  records, in the order of arrival, every call that reached it (\<open>trace\<close>) and every paint
  operation carried out (\<open>painted\<close>).

  \<^item> \<^verbatim>\<open>transform(matrix)\<close> raises \<^verbatim>\<open>TypeError\<close> when the argument is not a matrix,
    and the error of cairo for a singular matrix; otherwise the matrix is applied before
    the transformation in force.
  \<^item> \<^verbatim>\<open>set_source_rgb\<close> clamps each component to the interval from 0 to 1.
  \<^item> \<^verbatim>\<open>fill_preserve\<close> paints and keeps the path, \<^verbatim>\<open>stroke\<close> paints and clears it.
  \<^item> \<^verbatim>\<open>restore\<close> without a saved state is an error of cairo.
\<close>

datatype call =
    Save
  | Restore
  | TransformBy matrix
  | Arc real real real real real
  | RectanglePath real real real real
  | SetSourceRGB real real real
  | SetLineWidth real
  | FillPreserve
  | Stroke

datatype segment = ArcAt real real real real real | RectangleAt real real real real

type_synonym path = "(matrix \<times> segment) list"

datatype paint = Filled path rgb | Stroked path rgb real

record gstate =
  ctm :: matrix
  source :: rgb
  line_width :: real

record drawing_context =
  gs :: gstate
  saved :: "gstate list"
  current_path :: path
  painted :: "paint list"
  trace :: "call list"

text \<open>
  A new context, \<^verbatim>\<open>cairo.Context(surface)\<close>: the identity as transformation matrix,
  opaque black as source, the line width 2, nothing saved, no path, nothing painted.
\<close>

definition Context_init :: drawing_context where
  "Context_init =
     \<lparr>gs = \<lparr>ctm = Matrix, source = (0, 0, 0), line_width = 2\<rparr>,
      saved = [], current_path = [], painted = [], trace = []\<rparr>"

definition clamp01 :: "real \<Rightarrow> real" where
  "clamp01 v = max 0 (min 1 v)"

definition Context_save :: "drawing_context \<Rightarrow> (error + unit) \<times> drawing_context" where
  "Context_save ctx = (Inr (), ctx\<lparr>saved := gs ctx # saved ctx, trace := trace ctx @ [Save]\<rparr>)"

definition Context_restore :: "drawing_context \<Rightarrow> (error + unit) \<times> drawing_context" where
  "Context_restore ctx =
     (case saved ctx of
        [] \<Rightarrow> (Inl CairoError, ctx\<lparr>trace := trace ctx @ [Restore]\<rparr>)
      | g # rest \<Rightarrow> (Inr (), ctx\<lparr>gs := g, saved := rest, trace := trace ctx @ [Restore]\<rparr>))"

definition Context_transform :: "pyval \<Rightarrow> drawing_context \<Rightarrow> (error + unit) \<times> drawing_context" where
  "Context_transform v ctx =
     (case v of
        PyNone \<Rightarrow> (Inl TypeError, ctx)
      | PyMatrix m \<Rightarrow>
          if determinant m = 0
          then (Inl CairoError, ctx\<lparr>trace := trace ctx @ [TransformBy m]\<rparr>)
          else (Inr (), ctx\<lparr>gs := (gs ctx)\<lparr>ctm := Matrix_multiply m (ctm (gs ctx))\<rparr>,
                            trace := trace ctx @ [TransformBy m]\<rparr>))"

definition Context_arc ::
  "real \<Rightarrow> real \<Rightarrow> real \<Rightarrow> real \<Rightarrow> real \<Rightarrow> drawing_context \<Rightarrow> (error + unit) \<times> drawing_context"
where
  "Context_arc xc yc r angle1 angle2 ctx =
     (Inr (), ctx\<lparr>current_path := current_path ctx @ [(ctm (gs ctx), ArcAt xc yc r angle1 angle2)],
                  trace := trace ctx @ [Arc xc yc r angle1 angle2]\<rparr>)"

definition Context_rectangle ::
  "real \<Rightarrow> real \<Rightarrow> real \<Rightarrow> real \<Rightarrow> drawing_context \<Rightarrow> (error + unit) \<times> drawing_context"
where
  "Context_rectangle x y w h ctx =
     (Inr (), ctx\<lparr>current_path := current_path ctx @ [(ctm (gs ctx), RectangleAt x y w h)],
                  trace := trace ctx @ [RectanglePath x y w h]\<rparr>)"

definition Context_set_source_rgb :: "rgb \<Rightarrow> drawing_context \<Rightarrow> (error + unit) \<times> drawing_context" where
  "Context_set_source_rgb c ctx =
     (case c of (r, g, b) \<Rightarrow>
        (Inr (), ctx\<lparr>gs := (gs ctx)\<lparr>source := (clamp01 r, clamp01 g, clamp01 b)\<rparr>,
                     trace := trace ctx @ [SetSourceRGB r g b]\<rparr>))"

definition Context_set_line_width :: "real \<Rightarrow> drawing_context \<Rightarrow> (error + unit) \<times> drawing_context" where
  "Context_set_line_width w ctx =
     (Inr (), ctx\<lparr>gs := (gs ctx)\<lparr>line_width := w\<rparr>, trace := trace ctx @ [SetLineWidth w]\<rparr>)"

definition Context_fill_preserve :: "drawing_context \<Rightarrow> (error + unit) \<times> drawing_context" where
  "Context_fill_preserve ctx =
     (Inr (), ctx\<lparr>painted := painted ctx @ [Filled (current_path ctx) (source (gs ctx))],
                  trace := trace ctx @ [FillPreserve]\<rparr>)"

definition Context_stroke :: "drawing_context \<Rightarrow> (error + unit) \<times> drawing_context" where
  "Context_stroke ctx =
     (Inr (), ctx\<lparr>painted := painted ctx @
                     [Stroked (current_path ctx) (source (gs ctx)) (line_width (gs ctx))],
                  current_path := [],
                  trace := trace ctx @ [Stroke]\<rparr>)"


section \<open>Rendering a primitive\<close>

text \<open>Statements in sequence: the first one that raises ends the run.\<close>

fun statements :: "(drawing_context \<Rightarrow> (error + unit) \<times> drawing_context) list \<Rightarrow> drawing_context \<Rightarrow> (error + unit) \<times> drawing_context"
where
  "statements [] ctx = (Inr (), ctx)"
| "statements (c # cs) ctx =
     (case c ctx of
        (Inl e, ctx') \<Rightarrow> (Inl e, ctx')
      | (Inr _, ctx') \<Rightarrow> statements cs ctx')"

definition Circle_render_shape :: "primitive \<Rightarrow> drawing_context \<Rightarrow> (error + unit) \<times> drawing_context" where
  "Circle_render_shape self ctx =
     Context_arc (Re (center (shape self))) (Im (center (shape self))) (radius (shape self))
       0 (2 * pi) ctx"

definition Rectangle_render_shape :: "primitive \<Rightarrow> drawing_context \<Rightarrow> (error + unit) \<times> drawing_context" where
  "Rectangle_render_shape self ctx =
     (let left = Re (center (shape self)) - width (shape self) / 2;
          top = Im (center (shape self)) - height (shape self) / 2
      in Context_rectangle left top (width (shape self)) (height (shape self)) ctx)"

text \<open>
  \<^verbatim>\<open>render_shape\<close>, by dynamic dispatch; the base class executes
  \<^verbatim>\<open>raise NotImplemented\<close>.
\<close>

definition render_shape :: "primitive \<Rightarrow> drawing_context \<Rightarrow> (error + unit) \<times> drawing_context" where
  "render_shape self ctx =
     (case shape self of
        Primitive \<Rightarrow> (Inl TypeError, ctx)
      | Circle _ _ \<Rightarrow> Circle_render_shape self ctx
      | Rectangle _ _ _ \<Rightarrow> Rectangle_render_shape self ctx)"

text \<open>
  \<^verbatim>\<open>Primitive.render\<close>. The test \<^verbatim>\<open>if self.fill_color:\<close> is one of truth value:
  \<^verbatim>\<open>None\<close> is false, and the triple that \<^verbatim>\<open>to_float\<close> returned is true, as every
  non-empty tuple is.
\<close>

definition fill_pass :: "primitive \<Rightarrow> drawing_context \<Rightarrow> (error + unit) \<times> drawing_context" where
  "fill_pass self ctx =
     (case fill_color self of
        None \<Rightarrow> (Inr (), ctx)
      | Some c \<Rightarrow> statements [Context_set_source_rgb c, Context_fill_preserve] ctx)"

definition Primitive_render :: "primitive \<Rightarrow> drawing_context \<Rightarrow> (error + unit) \<times> drawing_context" where
  "Primitive_render self ctx =
     (case Transform_call (transform self) of
        Inl e \<Rightarrow> (Inl e, ctx)
      | Inr matrix \<Rightarrow>
          statements
            [Context_save,
             Context_transform matrix,
             render_shape self,
             fill_pass self,
             Context_set_source_rgb (stroke_color self),
             Context_set_line_width (stroke_width self),
             Context_stroke,
             Context_restore] ctx)"




section \<open>Properties of the transform algebra\<close>

lemma Matrix_multiply_point:
  "Matrix_transform_point (Matrix_multiply a b) p =
     Matrix_transform_point b (Matrix_transform_point a p)"
  by (simp add: Matrix_transform_point_def Matrix_multiply_def algebra_simps)

lemma Matrix_multiply_Matrix_left: "Matrix_multiply Matrix a = a"
  by (simp add: Matrix_multiply_def Matrix_def)

lemma Matrix_multiply_Matrix_right: "Matrix_multiply a Matrix = a"
  by (simp add: Matrix_multiply_def Matrix_def)

lemma determinant_multiply:
  "determinant (Matrix_multiply a b) = determinant a * determinant b"
  by (simp add: determinant_def Matrix_multiply_def algebra_simps)

lemma determinant_rotate: "determinant (Matrix_init_rotate \<theta>) = 1"
proof -
  have "cos \<theta> * cos \<theta> + sin \<theta> * sin \<theta> = 1"
    using sin_cos_squared_add2 [of \<theta>] by (simp add: power2_eq_square)
  then show ?thesis
    by (simp add: determinant_def Matrix_init_rotate_def)
qed

text \<open>
  Whatever matrix a transform resolves to is a rigid motion: its determinant is 1, so the
  drawing context never rejects it as singular.
\<close>

lemma Transform_call_determinant:
  "Transform_call t = Inr (PyMatrix m) \<Longrightarrow> determinant m = 1"
proof (induction t arbitrary: m)
  case (Compose t u)
  from Compose.prems obtain a b where
    a: "Transform_call u = Inr (PyMatrix a)" and
    b: "Transform_call t = Inr (PyMatrix b)" and
    m: "m = Matrix_multiply a b"
    by (auto split: sum.splits pyval.splits)
  from Compose.IH(1) [OF b] Compose.IH(2) [OF a] m show ?case
    by (simp add: determinant_multiply)
next
  case (Rotate \<theta>)
  then show ?case by (auto simp: determinant_rotate)
qed (auto simp: determinant_def Matrix_def Matrix_translate_def Matrix_scale_def
       Matrix_multiply_def init_translate_def)

lemma Compose_Identity_matrix:
  "Transform_call t = Inr (PyMatrix m) \<Longrightarrow>
     Transform_call (Compose Identity t) = Inr (PyMatrix m) \<and>
     Transform_call (Compose t Identity) = Inr (PyMatrix m)"
  by (simp add: Matrix_multiply_Matrix_left Matrix_multiply_Matrix_right)

text \<open>The two reflections are the only transforms that resolve to \<^verbatim>\<open>None\<close>.\<close>

lemma Transform_call_None_iff:
  "Transform_call t = Inr PyNone \<longleftrightarrow> t = ReflectX \<or> t = ReflectY"
  by (cases t) (auto simp: Matrix_scale_def split: sum.splits pyval.splits)

lemma Compose_Identity_left_iff:
  "Transform_call (Compose Identity t) = Transform_call t \<longleftrightarrow> Transform_call t \<noteq> Inr PyNone"
  by (auto simp: Matrix_multiply_Matrix_right split: sum.splits pyval.splits)

lemma Compose_Identity_right_iff:
  "Transform_call (Compose t Identity) = Transform_call t \<longleftrightarrow> Transform_call t \<noteq> Inr PyNone"
  by (auto simp: Matrix_multiply_Matrix_left split: sum.splits pyval.splits)

text \<open>
  Claim C1, as amended. For transforms \<open>first\<close> and \<open>second\<close> that resolve to the matrices
  \<open>a\<close> and \<open>b\<close>, \<open>Compose first second\<close> resolves to \<^verbatim>\<open>b.multiply(a)\<close>, the product of
  \<open>second\<close>'s matrix with \<open>first\<close>'s; its action on a point applies \<open>second\<close>'s
  transform to the point and then \<open>first\<close>'s transform to the result.
\<close>

theorem Compose_call_order:
  assumes "Transform_call first = Inr (PyMatrix a)"
      and "Transform_call second = Inr (PyMatrix b)"
  shows "Transform_call (Compose first second) = Inr (PyMatrix (Matrix_multiply b a)) \<and>
         Matrix_transform_point (Matrix_multiply b a) p =
           Matrix_transform_point a (Matrix_transform_point b p)"
  using assms by (simp add: Matrix_multiply_point)

text \<open>
  The theorem at \<open>first = Translate 1 0\<close>, \<open>second = Rotate pi\<close> and the origin: the
  composed matrix turns the origin by \<open>pi\<close> (it stays where it is) and then moves it to
  \<open>(1, 0)\<close>.
\<close>

theorem Compose_call_order_witness:
  "Transform_call (Translate 1 0) = Inr (PyMatrix (init_translate 1 0)) \<and>
   Transform_call (Rotate pi) = Inr (PyMatrix (Matrix_init_rotate pi)) \<and>
   Transform_call (Compose (Translate 1 0) (Rotate pi)) =
     Inr (PyMatrix (Matrix_multiply (Matrix_init_rotate pi) (init_translate 1 0))) \<and>
   Matrix_transform_point (Matrix_multiply (Matrix_init_rotate pi) (init_translate 1 0)) (0, 0) =
     Matrix_transform_point (init_translate 1 0)
       (Matrix_transform_point (Matrix_init_rotate pi) (0, 0)) \<and>
   Matrix_transform_point (init_translate 1 0)
     (Matrix_transform_point (Matrix_init_rotate pi) (0, 0)) = (1, 0)"
proof -
  have f: "Transform_call (Translate 1 0) = Inr (PyMatrix (init_translate 1 0))"
    by (simp add: Matrix_translate_def Matrix_multiply_Matrix_right)
  have s: "Transform_call (Rotate pi) = Inr (PyMatrix (Matrix_init_rotate pi))"
    by simp
  have v: "Matrix_transform_point (init_translate 1 0)
             (Matrix_transform_point (Matrix_init_rotate pi) (0, 0)) = (1, 0)"
    by (simp add: Matrix_transform_point_def init_translate_def Matrix_init_rotate_def)
  from Compose_call_order [OF f s, of "(0, 0)"] f s v show ?thesis
    by simp
qed

text \<open>
  Claim C1 as stated fails: with \<open>first = Translate 1 0\<close> and \<open>second = Rotate pi\<close> the
  composed matrix sends the origin to \<open>(1, 0)\<close>, while applying \<open>first\<close> and then
  \<open>second\<close> sends it to \<open>(- 1, 0)\<close>.
\<close>

theorem Compose_first_then_second_counterexample:
  "Transform_call (Translate 1 0) = Inr (PyMatrix (init_translate 1 0)) \<and>
   Transform_call (Rotate pi) = Inr (PyMatrix (Matrix_init_rotate pi)) \<and>
   Transform_call (Compose (Translate 1 0) (Rotate pi)) =
     Inr (PyMatrix (Matrix_multiply (Matrix_init_rotate pi) (init_translate 1 0))) \<and>
   Matrix_transform_point (Matrix_multiply (Matrix_init_rotate pi) (init_translate 1 0)) (0, 0) =
     (1, 0) \<and>
   Matrix_transform_point (Matrix_init_rotate pi)
     (Matrix_transform_point (init_translate 1 0) (0, 0)) = (- 1, 0) \<and>
   Matrix_transform_point (Matrix_multiply (Matrix_init_rotate pi) (init_translate 1 0)) (0, 0) \<noteq>
     Matrix_transform_point (Matrix_init_rotate pi)
       (Matrix_transform_point (init_translate 1 0) (0, 0))"
  by (simp add: Matrix_translate_def Matrix_multiply_Matrix_right Matrix_transform_point_def
        init_translate_def Matrix_init_rotate_def Matrix_multiply_def Matrix_def)

text \<open>
  Claim C2. Resolving \<open>ReflectX\<close> or \<open>ReflectY\<close> returns \<^verbatim>\<open>None\<close>, not a matrix: the
  matrix object that \<^verbatim>\<open>scale\<close> has turned into \<open>scale(-1, 1)\<close>, respectively
  \<open>scale(1, -1)\<close>, is dropped when the variable is rebound to the value that
  \<^verbatim>\<open>scale\<close> returns.
\<close>

theorem Reflect_call_returns_None:
  "Transform_call ReflectX = Inr PyNone \<and> Transform_call ReflectY = Inr PyNone \<and>
   snd (Matrix_scale Matrix (- 1) 1) = init_scale (- 1) 1 \<and>
   snd (Matrix_scale Matrix 1 (- 1)) = init_scale 1 (- 1)"
  by (simp add: Matrix_scale_def Matrix_multiply_Matrix_right)

text \<open>
  Claim C8. With \<open>t = ReflectX\<close> or \<open>t = ReflectY\<close>, which resolve to \<^verbatim>\<open>None\<close>,
  resolving \<open>Compose Identity t\<close> raises \<^verbatim>\<open>AttributeError\<close> and resolving
  \<open>Compose t Identity\<close> raises \<^verbatim>\<open>TypeError\<close>: neither yields a matrix.
\<close>

theorem Compose_Identity_Reflect_raises:
  "Transform_call ReflectX = Inr PyNone \<and>
   Transform_call (Compose Identity ReflectX) = Inl AttributeError \<and>
   Transform_call (Compose ReflectX Identity) = Inl TypeError \<and>
   Transform_call ReflectY = Inr PyNone \<and>
   Transform_call (Compose Identity ReflectY) = Inl AttributeError \<and>
   Transform_call (Compose ReflectY Identity) = Inl TypeError"
  by (simp add: Matrix_scale_def)

section \<open>Properties of primitives\<close>

text \<open>
  Claim C4, as amended. On a primitive \<open>p\<close>, \<^verbatim>\<open>rotate\<close> replaces the transform with
  \<open>Compose (Rotate \<theta>) (transform p)\<close> and \<^verbatim>\<open>translate\<close> replaces it with
  \<open>Compose (Translate dx dy) (transform p)\<close>; each of the five setters changes that one
  field of the receiver, leaves its other fields and every other object as they were, and
  returns the receiver. Where the old transform resolves to a matrix \<open>acc\<close>, the new
  transform resolves to \<^verbatim>\<open>acc.multiply(new)\<close>: on a point of the local geometry the
  transform accumulated before acts first and the new operation acts on the result.
\<close>

theorem Primitive_setters_one_field:
  assumes "self < length (primitives h)" and "p = primitives h ! self"
  shows
    "Primitive_rotate self \<theta> h =
       (Inr self, h\<lparr>primitives := (primitives h)[self :=
          p\<lparr>transform := Compose (Rotate \<theta>) (transform p)\<rparr>]\<rparr>) \<and>
     Primitive_translate self dx dy h =
       (Inr self, h\<lparr>primitives := (primitives h)[self :=
          p\<lparr>transform := Compose (Translate dx dy) (transform p)\<rparr>]\<rparr>) \<and>
     Primitive_set_fill_color self (RGB r g b) h =
       (Inr self, h\<lparr>primitives := (primitives h)[self :=
          p\<lparr>fill_color :=
              Some (real_of_int r / 255, real_of_int g / 255, real_of_int b / 255)\<rparr>]\<rparr>) \<and>
     Primitive_set_stroke_color self (RGB r g b) h =
       (Inr self, h\<lparr>primitives := (primitives h)[self :=
          p\<lparr>stroke_color :=
              (real_of_int r / 255, real_of_int g / 255, real_of_int b / 255)\<rparr>]\<rparr>) \<and>
     Primitive_set_stroke_width self w h =
       (Inr self, h\<lparr>primitives := (primitives h)[self := p\<lparr>stroke_width := w\<rparr>]\<rparr>) \<and>
     (Transform_call (transform p) = Inr (PyMatrix acc) \<longrightarrow>
        Transform_call (Compose (Rotate \<theta>) (transform p)) =
          Inr (PyMatrix (Matrix_multiply acc (Matrix_init_rotate \<theta>))) \<and>
        Matrix_transform_point (Matrix_multiply acc (Matrix_init_rotate \<theta>)) pt =
          Matrix_transform_point (Matrix_init_rotate \<theta>) (Matrix_transform_point acc pt) \<and>
        Transform_call (Compose (Translate dx dy) (transform p)) =
          Inr (PyMatrix (Matrix_multiply acc (init_translate dx dy))) \<and>
        Matrix_transform_point (Matrix_multiply acc (init_translate dx dy)) pt =
          Matrix_transform_point (init_translate dx dy) (Matrix_transform_point acc pt))"
  using assms
  by (simp add: Primitive_rotate_def Primitive_translate_def Primitive_set_fill_color_def
        Primitive_set_stroke_color_def Primitive_set_stroke_width_def assign_def
        Matrix_multiply_point Matrix_translate_def Matrix_multiply_Matrix_right)

text \<open>The theorem on a circle that has just been created, the only object of the store.\<close>

theorem Primitive_setters_one_field_witness:
  "(0::nat) < length (primitives (snd (Circle_init 1 empty_heap))) \<and>
   Primitive_init (Circle 1 (Complex 0 0)) = primitives (snd (Circle_init 1 empty_heap)) ! 0 \<and>
   Primitive_rotate 0 pi (snd (Circle_init 1 empty_heap)) =
     (Inr 0, \<lparr>primitives = [(Primitive_init (Circle 1 (Complex 0 0)))
               \<lparr>transform := Compose (Rotate pi) Identity\<rparr>], diagrams = []\<rparr>) \<and>
   Primitive_translate 0 1 0 (snd (Circle_init 1 empty_heap)) =
     (Inr 0, \<lparr>primitives = [(Primitive_init (Circle 1 (Complex 0 0)))
               \<lparr>transform := Compose (Translate 1 0) Identity\<rparr>], diagrams = []\<rparr>) \<and>
   Primitive_set_fill_color 0 (RGB 255 0 0) (snd (Circle_init 1 empty_heap)) =
     (Inr 0, \<lparr>primitives = [(Primitive_init (Circle 1 (Complex 0 0)))
               \<lparr>fill_color := Some (1, 0, 0)\<rparr>], diagrams = []\<rparr>) \<and>
   Primitive_set_stroke_color 0 (RGB 255 0 0) (snd (Circle_init 1 empty_heap)) =
     (Inr 0, \<lparr>primitives = [(Primitive_init (Circle 1 (Complex 0 0)))
               \<lparr>stroke_color := (1, 0, 0)\<rparr>], diagrams = []\<rparr>) \<and>
   Primitive_set_stroke_width 0 2 (snd (Circle_init 1 empty_heap)) =
     (Inr 0, \<lparr>primitives = [(Primitive_init (Circle 1 (Complex 0 0)))
               \<lparr>stroke_width := 2\<rparr>], diagrams = []\<rparr>) \<and>
   Transform_call (transform (Primitive_init (Circle 1 (Complex 0 0)))) = Inr (PyMatrix Matrix) \<and>
   Transform_call (Compose (Rotate pi) (transform (Primitive_init (Circle 1 (Complex 0 0))))) =
     Inr (PyMatrix (Matrix_multiply Matrix (Matrix_init_rotate pi))) \<and>
   Transform_call (Compose (Translate 1 0) (transform (Primitive_init (Circle 1 (Complex 0 0))))) =
     Inr (PyMatrix (Matrix_multiply Matrix (init_translate 1 0)))"
proof -
  let ?h = "snd (Circle_init 1 empty_heap)"
  let ?p = "Primitive_init (Circle 1 (Complex 0 0))"
  have h: "?h = \<lparr>primitives = [?p], diagrams = []\<rparr>"
    by (simp add: Circle_init_def new_primitive_def empty_heap_def)
  have v: "(0::nat) < length (primitives ?h)" and p: "?p = primitives ?h ! 0"
    by (simp_all add: h)
  have t: "Transform_call (transform ?p) = Inr (PyMatrix Matrix)"
    by (simp add: Primitive_init_def)
  from Primitive_setters_one_field [OF v p, of pi 1 0 255 0 0 2 Matrix "(0, 0)"] t
  show ?thesis
    by (simp add: h Primitive_init_def Matrix_translate_def Matrix_multiply_Matrix_right
          Matrix_multiply_Matrix_left)
qed

text \<open>
  Claim C4 as stated fails in its gloss: after \<^verbatim>\<open>Circle(1).translate(1, 0).rotate(pi)\<close>
  the transform resolves to a matrix that sends the local origin to \<open>(- 1, 0)\<close>, the
  translation accumulated before acting first and the new rotation after it; were the new
  rotation applied before the accumulated translation, the origin would go to \<open>(1, 0)\<close>.
\<close>

theorem new_operation_applies_last_counterexample:
  "Primitive_rotate 0 pi (snd (Primitive_translate 0 1 0 (snd (Circle_init 1 empty_heap)))) =
     (Inr 0, \<lparr>primitives =
        [(Primitive_init (Circle 1 (Complex 0 0)))
           \<lparr>transform := Compose (Rotate pi) (Compose (Translate 1 0) Identity)\<rparr>],
        diagrams = []\<rparr>) \<and>
   Transform_call (Compose (Rotate pi) (Compose (Translate 1 0) Identity)) =
     Inr (PyMatrix (Matrix_multiply (init_translate 1 0) (Matrix_init_rotate pi))) \<and>
   Matrix_transform_point (Matrix_multiply (init_translate 1 0) (Matrix_init_rotate pi)) (0, 0) =
     (- 1, 0) \<and>
   Matrix_transform_point (init_translate 1 0)
     (Matrix_transform_point (Matrix_init_rotate pi) (0, 0)) = (1, 0)"
  by (simp add: Primitive_rotate_def Primitive_translate_def assign_def Circle_init_def
        new_primitive_def empty_heap_def Primitive_init_def
        Matrix_translate_def Matrix_multiply_Matrix_right Matrix_multiply_Matrix_left
        Matrix_transform_point_def init_translate_def Matrix_init_rotate_def Matrix_multiply_def
        Matrix_def)

lemma call_setter_valid:
  assumes "self < length (primitives h)" and "concrete_color c"
  shows "call_setter c self h =
           (Inr self, h\<lparr>primitives := (primitives h)[self := setting c (primitives h ! self)]\<rparr>)"
proof (cases c)
  case (DoSetFillColor col)
  with assms show ?thesis
    by (cases col) (simp_all add: Primitive_set_fill_color_def assign_def)
next
  case (DoSetStrokeColor col)
  with assms show ?thesis
    by (cases col) (simp_all add: Primitive_set_stroke_color_def assign_def)
qed (use assms in \<open>simp_all add: Primitive_rotate_def Primitive_translate_def
      Primitive_set_stroke_width_def assign_def\<close>)

text \<open>
  Claim C10. A chain of calls of the five setters on a primitive, with colours of the
  class \<^verbatim>\<open>RGB\<close>, returns the reference it started from. The store holds no new object:
  the object behind that reference carries every setting of the chain, in the order of
  the calls, and all other objects are as before, so whoever holds the reference sees the
  new settings.
\<close>

theorem chain_returns_self:
  assumes "self < length (primitives h)" and "list_all concrete_color cs"
  shows "\<exists>h'. chain cs self h = (Inr self, h') \<and>
           primitives h' = (primitives h)[self := fold setting cs (primitives h ! self)] \<and>
           diagrams h' = diagrams h"
  using assms
proof (induction cs arbitrary: h)
  case Nil
  then show ?case by simp
next
  case (Cons c cs)
  let ?h1 = "h\<lparr>primitives := (primitives h)[self := setting c (primitives h ! self)]\<rparr>"
  from Cons.prems have step: "call_setter c self h = (Inr self, ?h1)"
    by (simp add: call_setter_valid)
  from Cons.prems have "self < length (primitives ?h1)" and "list_all concrete_color cs"
    by simp_all
  from Cons.IH [OF this] obtain h' where
    "chain cs self ?h1 = (Inr self, h')" and
    "primitives h' = (primitives ?h1)[self := fold setting cs (primitives ?h1 ! self)]" and
    "diagrams h' = diagrams ?h1"
    by blast
  with step Cons.prems(1) show ?case by simp
qed

text \<open>The theorem on a circle that a diagram refers to.\<close>

theorem chain_returns_self_witness:
  "(0::nat) < length (primitives (snd (new_diagram [0] (snd (Circle_init 1 empty_heap))))) \<and>
   list_all concrete_color [DoRotate pi, DoTranslate 1 0, DoSetFillColor (RGB 255 0 0)] \<and>
   chain [DoRotate pi, DoTranslate 1 0, DoSetFillColor (RGB 255 0 0)] 0
       (snd (new_diagram [0] (snd (Circle_init 1 empty_heap)))) =
     (Inr 0,
      \<lparr>primitives =
         [\<lparr>transform = Compose (Translate 1 0) (Compose (Rotate pi) Identity),
           fill_color = Some (1, 0, 0), stroke_color = (0, 0, 0), stroke_width = 0.01,
           shape = Circle 1 (Complex 0 0)\<rparr>],
       diagrams = [[0]]\<rparr>)"
proof -
  let ?h = "snd (new_diagram [0] (snd (Circle_init 1 empty_heap)))"
  let ?cs = "[DoRotate pi, DoTranslate 1 0, DoSetFillColor (RGB 255 0 0)]"
  have h: "?h = \<lparr>primitives = [Primitive_init (Circle 1 (Complex 0 0))], diagrams = [[0]]\<rparr>"
    by (simp add: Circle_init_def new_primitive_def new_diagram_def empty_heap_def)
  have v: "(0::nat) < length (primitives ?h)" and c: "list_all concrete_color ?cs"
    by (simp_all add: h)
  from chain_returns_self [OF v c] obtain h' where
    r: "chain ?cs 0 ?h = (Inr 0, h')" and
    p: "primitives h' = (primitives ?h)[0 := fold setting ?cs (primitives ?h ! 0)]" and
    d: "diagrams h' = diagrams ?h"
    by blast
  from p d have "h' = \<lparr>primitives =
         [\<lparr>transform = Compose (Translate 1 0) (Compose (Rotate pi) Identity),
           fill_color = Some (1, 0, 0), stroke_color = (0, 0, 0), stroke_width = 0.01,
           shape = Circle 1 (Complex 0 0)\<rparr>],
       diagrams = [[0]]\<rparr>"
    by (cases h') (simp add: h Primitive_init_def)
  with r v c show ?thesis by simp
qed

section \<open>Properties of diagrams\<close>

text \<open>
  The comprehension of \<^verbatim>\<open>Diagram.translate\<close> returns the references it was given
  and wraps the transform of each object once for every occurrence of its reference.
\<close>

lemma comprehension_translate:
  assumes "\<forall>s \<in> set ss. s < length (primitives h)"
  shows "\<exists>h'. comprehension (\<lambda>shape. Primitive_translate shape dx dy) ss h = (Inr ss, h') \<and>
           diagrams h' = diagrams h \<and>
           length (primitives h') = length (primitives h) \<and>
           (\<forall>a < length (primitives h). primitives h' ! a =
              (primitives h ! a)\<lparr>transform :=
                 (Compose (Translate dx dy) ^^ count_list ss a) (transform (primitives h ! a))\<rparr>)"
  using assms
proof (induction ss arbitrary: h)
  case Nil
  then show ?case by simp
next
  case (Cons s ss)
  let ?h1 = "h\<lparr>primitives := (primitives h)[s :=
               (primitives h ! s)\<lparr>transform :=
                  Compose (Translate dx dy) (transform (primitives h ! s))\<rparr>]\<rparr>"
  from Cons.prems have s: "s < length (primitives h)" by simp
  then have step: "Primitive_translate s dx dy h = (Inr s, ?h1)"
    by (simp add: Primitive_translate_def assign_def)
  from Cons.prems have "\<forall>r \<in> set ss. r < length (primitives ?h1)" by simp
  from Cons.IH [OF this] obtain h' where
    c: "comprehension (\<lambda>shape. Primitive_translate shape dx dy) ss ?h1 = (Inr ss, h')" and
    d: "diagrams h' = diagrams ?h1" and
    l: "length (primitives h') = length (primitives ?h1)" and
    a: "\<forall>a < length (primitives ?h1). primitives h' ! a =
          (primitives ?h1 ! a)\<lparr>transform :=
             (Compose (Translate dx dy) ^^ count_list ss a) (transform (primitives ?h1 ! a))\<rparr>"
    by blast
  have "\<forall>a < length (primitives h). primitives h' ! a =
          (primitives h ! a)\<lparr>transform :=
             (Compose (Translate dx dy) ^^ count_list (s # ss) a) (transform (primitives h ! a))\<rparr>"
  proof (intro allI impI)
    fix a assume lt: "a < length (primitives h)"
    with a have e: "primitives h' ! a =
          (primitives ?h1 ! a)\<lparr>transform :=
             (Compose (Translate dx dy) ^^ count_list ss a) (transform (primitives ?h1 ! a))\<rparr>"
      by simp
    show "primitives h' ! a =
          (primitives h ! a)\<lparr>transform :=
             (Compose (Translate dx dy) ^^ count_list (s # ss) a) (transform (primitives h ! a))\<rparr>"
    proof (cases "a = s")
      case True
      with e s show ?thesis by (simp add: funpow_swap1)
    next
      case False
      with e show ?thesis by simp
    qed
  qed
  with step c d l show ?case by simp
qed

text \<open>
  Claim C3, as amended. For a diagram \<open>d\<close> whose elements are primitives,
  \<^verbatim>\<open>d.translate(dx, dy)\<close> returns a new diagram object whose sequence holds the same
  primitive objects as that of \<open>d\<close>, in the same order; the sequence of \<open>d\<close> and all
  other diagrams are unchanged, and no primitive is created. \<^verbatim>\<open>translate(dx, dy)\<close> has
  been applied in place to every primitive of the sequence, once for each of its
  occurrences: the transform of a primitive that occurs \<open>n\<close> times is wrapped \<open>n\<close> times
  in \<open>Compose (Translate dx dy)\<close>, its other fields and the primitives outside the
  sequence are as before. So the primitives of \<open>d\<close> itself carry the new transforms.
\<close>

theorem Diagram_translate_shares_primitives:
  assumes "d < length (diagrams h)"
      and "\<forall>s \<in> set (diagrams h ! d). s < length (primitives h)"
  shows "\<exists>h'. Diagram_translate d dx dy h = (Inr (length (diagrams h)), h') \<and>
           diagrams h' = diagrams h @ [diagrams h ! d] \<and>
           length (primitives h') = length (primitives h) \<and>
           (\<forall>a < length (primitives h). primitives h' ! a =
              (primitives h ! a)\<lparr>transform :=
                 (Compose (Translate dx dy) ^^ count_list (diagrams h ! d) a)
                   (transform (primitives h ! a))\<rparr>)"
proof -
  from comprehension_translate [OF assms(2), of dx dy] obtain h1 where
    c: "comprehension (\<lambda>shape. Primitive_translate shape dx dy) (diagrams h ! d) h =
          (Inr (diagrams h ! d), h1)" and
    d: "diagrams h1 = diagrams h" and
    l: "length (primitives h1) = length (primitives h)" and
    a: "\<forall>a < length (primitives h). primitives h1 ! a =
          (primitives h ! a)\<lparr>transform :=
             (Compose (Translate dx dy) ^^ count_list (diagrams h ! d) a)
               (transform (primitives h ! a))\<rparr>"
    by blast
  with assms(1) show ?thesis
    by (simp add: Diagram_translate_def Diagram_fmap_def new_diagram_def)
qed

text \<open>
  The theorem on a store with a circle and a rectangle and the diagram of the circle
  taken twice: the circle is translated twice, the rectangle is not touched.
\<close>

theorem Diagram_translate_shares_primitives_witness:
  "(0::nat) < length (diagrams (snd (new_diagram [0, 0]
       (snd (Rectangle_init 2 3 (snd (Circle_init 1 empty_heap))))))) \<and>
   list_all (\<lambda>s. s < length (primitives (snd (new_diagram [0, 0]
       (snd (Rectangle_init 2 3 (snd (Circle_init 1 empty_heap))))))))
     (diagrams (snd (new_diagram [0, 0]
       (snd (Rectangle_init 2 3 (snd (Circle_init 1 empty_heap)))))) ! 0) \<and>
   Diagram_translate 0 1 2 (snd (new_diagram [0, 0]
       (snd (Rectangle_init 2 3 (snd (Circle_init 1 empty_heap)))))) =
     (Inr 1,
      \<lparr>primitives =
         [(Primitive_init (Circle 1 (Complex 0 0)))
            \<lparr>transform := Compose (Translate 1 2) (Compose (Translate 1 2) Identity)\<rparr>,
          Primitive_init (Rectangle 3 2 (Complex 0 0))],
       diagrams = [[0, 0], [0, 0]]\<rparr>)"
proof -
  let ?h = "snd (new_diagram [0, 0] (snd (Rectangle_init 2 3 (snd (Circle_init 1 empty_heap)))))"
  let ?c = "Primitive_init (Circle 1 (Complex 0 0))"
  let ?r = "Primitive_init (Rectangle 3 2 (Complex 0 0))"
  have h: "?h = \<lparr>primitives = [?c, ?r], diagrams = [[0, 0]]\<rparr>"
    by (simp add: Circle_init_def Rectangle_init_def new_primitive_def new_diagram_def
          empty_heap_def)
  have v: "(0::nat) < length (diagrams ?h)"
    and s: "\<forall>s \<in> set (diagrams ?h ! 0). s < length (primitives ?h)"
    by (simp_all add: h)
  from Diagram_translate_shares_primitives [OF v s, of 1 2] obtain h' where
    r: "Diagram_translate 0 1 2 ?h = (Inr (length (diagrams ?h)), h')" and
    d: "diagrams h' = diagrams ?h @ [diagrams ?h ! 0]" and
    l: "length (primitives h') = length (primitives ?h)" and
    a: "\<forall>a < length (primitives ?h). primitives h' ! a =
          (primitives ?h ! a)\<lparr>transform :=
             (Compose (Translate 1 2) ^^ count_list (diagrams ?h ! 0) a)
               (transform (primitives ?h ! a))\<rparr>"
    by blast
  from a have "primitives h' ! 0 =
      ?c\<lparr>transform := Compose (Translate 1 2) (Compose (Translate 1 2) Identity)\<rparr>"
    and "primitives h' ! 1 = ?r"
    by (simp_all add: h Primitive_init_def numeral_2_eq_2)
  with l have "primitives h' =
      [?c\<lparr>transform := Compose (Translate 1 2) (Compose (Translate 1 2) Identity)\<rparr>, ?r]"
    by (intro nth_equalityI) (auto simp: h less_Suc_eq)
  with d have "h' = \<lparr>primitives =
         [?c\<lparr>transform := Compose (Translate 1 2) (Compose (Translate 1 2) Identity)\<rparr>, ?r],
       diagrams = [[0, 0], [0, 0]]\<rparr>"
    by (cases h') (simp add: h)
  with r show ?thesis by (simp add: h)
qed

text \<open>
  Claim C3 as stated fails: after \<^verbatim>\<open>Diagram([Circle(1)]).translate(1, 2)\<close> the circle
  of the receiver, whose transform was \<open>Identity\<close>, has the transform
  \<open>Compose (Translate 1 2) Identity\<close>.
\<close>

theorem Diagram_translate_changes_operand_counterexample:
  "Diagram_translate 0 1 2 (snd (new_diagram [0] (snd (Circle_init 1 empty_heap)))) =
     (Inr 1,
      \<lparr>primitives = [(Primitive_init (Circle 1 (Complex 0 0)))
                       \<lparr>transform := Compose (Translate 1 2) Identity\<rparr>],
       diagrams = [[0], [0]]\<rparr>) \<and>
   diagrams (snd (new_diagram [0] (snd (Circle_init 1 empty_heap)))) ! 0 = [0] \<and>
   transform (primitives (snd (new_diagram [0] (snd (Circle_init 1 empty_heap)))) ! 0) = Identity \<and>
   transform (primitives (snd (Diagram_translate 0 1 2
      (snd (new_diagram [0] (snd (Circle_init 1 empty_heap)))))) ! 0) \<noteq> Identity"
  by (simp add: Diagram_translate_def Diagram_fmap_def new_diagram_def Circle_init_def
        new_primitive_def empty_heap_def Primitive_translate_def assign_def Primitive_init_def)

text \<open>
  Claim C7. For a diagram \<open>d\<close>, \<^verbatim>\<open>Diagram.empty()\<close> creates a diagram with the empty
  sequence, and both \<^verbatim>\<open>Diagram.empty() + d\<close> and \<^verbatim>\<open>d + Diagram.empty()\<close> create a
  diagram whose sequence equals that of \<open>d\<close>. Each call only appends the new diagram to
  the store: the sequences of both operands, every other diagram and all primitives are
  as before.
\<close>

theorem Diagram_empty_is_identity:
  assumes "d < length (diagrams h)"
  shows "\<exists>h1. Diagram_empty h = (Inr (length (diagrams h)), h1) \<and>
           diagrams h1 = diagrams h @ [[]] \<and> primitives h1 = primitives h \<and>
           (\<exists>h2. Diagram_add (length (diagrams h)) d h1 = (Inr (Suc (length (diagrams h))), h2) \<and>
                  diagrams h2 ! Suc (length (diagrams h)) = diagrams h ! d \<and>
                  diagrams h2 = diagrams h1 @ [diagrams h ! d] \<and>
                  primitives h2 = primitives h) \<and>
           (\<exists>h2. Diagram_add d (length (diagrams h)) h1 = (Inr (Suc (length (diagrams h))), h2) \<and>
                  diagrams h2 ! Suc (length (diagrams h)) = diagrams h ! d \<and>
                  diagrams h2 = diagrams h1 @ [diagrams h ! d] \<and>
                  primitives h2 = primitives h)"
  using assms
  by (simp add: Diagram_empty_def Diagram_add_def new_diagram_def nth_append)

text \<open>The theorem on the diagram of one circle.\<close>

theorem Diagram_empty_is_identity_witness:
  "(0::nat) < length (diagrams (snd (new_diagram [0] (snd (Circle_init 1 empty_heap))))) \<and>
   Diagram_empty (snd (new_diagram [0] (snd (Circle_init 1 empty_heap)))) =
     (Inr 1, \<lparr>primitives = [Primitive_init (Circle 1 (Complex 0 0))], diagrams = [[0], []]\<rparr>) \<and>
   Diagram_add 1 0
       \<lparr>primitives = [Primitive_init (Circle 1 (Complex 0 0))], diagrams = [[0], []]\<rparr> =
     (Inr 2,
      \<lparr>primitives = [Primitive_init (Circle 1 (Complex 0 0))], diagrams = [[0], [], [0]]\<rparr>) \<and>
   Diagram_add 0 1
       \<lparr>primitives = [Primitive_init (Circle 1 (Complex 0 0))], diagrams = [[0], []]\<rparr> =
     (Inr 2,
      \<lparr>primitives = [Primitive_init (Circle 1 (Complex 0 0))], diagrams = [[0], [], [0]]\<rparr>)"
proof -
  let ?h = "snd (new_diagram [0] (snd (Circle_init 1 empty_heap)))"
  let ?c = "Primitive_init (Circle 1 (Complex 0 0))"
  have h: "?h = \<lparr>primitives = [?c], diagrams = [[0]]\<rparr>"
    by (simp add: Circle_init_def new_primitive_def new_diagram_def empty_heap_def)
  have v: "(0::nat) < length (diagrams ?h)"
    by (simp add: h)
  from Diagram_empty_is_identity [OF v] obtain h1 ha hb where
    e: "Diagram_empty ?h = (Inr (length (diagrams ?h)), h1)" and
    d1: "diagrams h1 = diagrams ?h @ [[]]" and
    p1: "primitives h1 = primitives ?h" and
    a: "Diagram_add (length (diagrams ?h)) 0 h1 = (Inr (Suc (length (diagrams ?h))), ha)" and
    da: "diagrams ha = diagrams h1 @ [diagrams ?h ! 0]" and
    pa: "primitives ha = primitives ?h" and
    b: "Diagram_add 0 (length (diagrams ?h)) h1 = (Inr (Suc (length (diagrams ?h))), hb)" and
    db: "diagrams hb = diagrams h1 @ [diagrams ?h ! 0]" and
    pb: "primitives hb = primitives ?h"
    by blast
  from d1 p1 have h1: "h1 = \<lparr>primitives = [?c], diagrams = [[0], []]\<rparr>"
    by (cases h1) (simp add: h)
  from da pa d1 have ha: "ha = \<lparr>primitives = [?c], diagrams = [[0], [], [0]]\<rparr>"
    by (cases ha) (simp add: h)
  from db pb d1 have hb: "hb = \<lparr>primitives = [?c], diagrams = [[0], [], [0]]\<rparr>"
    by (cases hb) (simp add: h)
  from e a b show ?thesis
    by (simp add: h h1 ha hb)
qed

section \<open>Properties of rendering\<close>

text \<open>
  Claim C9. On a circle, \<^verbatim>\<open>render_shape\<close> makes one call of the context,
  \<^verbatim>\<open>arc\<close> at the circle's centre with its radius from angle 0 to \<open>2 * pi\<close>; on a
  rectangle it makes one call, \<^verbatim>\<open>rectangle\<close> with the left edge at the centre's
  abscissa less half the width, the top edge at its ordinate less half the height, and the
  width and height. Either call extends the current path and nothing else: nothing is
  painted, and the graphics state is as before.
\<close>

theorem render_shape_emits_geometry_only:
  "render_shape (p\<lparr>shape := Circle r c\<rparr>) ctx =
     (Inr (), ctx\<lparr>current_path := current_path ctx @ [(ctm (gs ctx), ArcAt (Re c) (Im c) r 0 (2 * pi))],
                  trace := trace ctx @ [Arc (Re c) (Im c) r 0 (2 * pi)]\<rparr>) \<and>
   render_shape (p\<lparr>shape := Rectangle w h c\<rparr>) ctx =
     (Inr (), ctx\<lparr>current_path := current_path ctx @
                     [(ctm (gs ctx), RectangleAt (Re c - w / 2) (Im c - h / 2) w h)],
                  trace := trace ctx @ [RectanglePath (Re c - w / 2) (Im c - h / 2) w h]\<rparr>) \<and>
   painted (snd (render_shape (p\<lparr>shape := Circle r c\<rparr>) ctx)) = painted ctx \<and>
   painted (snd (render_shape (p\<lparr>shape := Rectangle w h c\<rparr>) ctx)) = painted ctx \<and>
   gs (snd (render_shape (p\<lparr>shape := Circle r c\<rparr>) ctx)) = gs ctx \<and>
   gs (snd (render_shape (p\<lparr>shape := Rectangle w h c\<rparr>) ctx)) = gs ctx"
  by (simp add: render_shape_def Circle_render_shape_def Rectangle_render_shape_def
        Context_arc_def Context_rectangle_def Let_def)

lemma render_shape_concrete:
  assumes "shape self \<noteq> Primitive"
  obtains g seg where
    "render_shape self ctx =
       (Inr (), ctx\<lparr>current_path := current_path ctx @ [(ctm (gs ctx), seg)],
                    trace := trace ctx @ [g]\<rparr>)"
    and "(\<exists>xc yc r a1 a2. g = Arc xc yc r a1 a2) \<or> (\<exists>x y w h. g = RectanglePath x y w h)"
proof (cases "shape self")
  case Primitive
  with assms show ?thesis by simp
next
  case (Circle r c)
  show ?thesis
    by (rule that [of "Arc (Re c) (Im c) r 0 (2 * pi)" "ArcAt (Re c) (Im c) r 0 (2 * pi)"])
       (simp_all add: Circle render_shape_def Circle_render_shape_def Context_arc_def)
next
  case (Rectangle w h c)
  show ?thesis
    by (rule that [of "RectanglePath (Re c - w / 2) (Im c - h / 2) w h"
                      "RectangleAt (Re c - w / 2) (Im c - h / 2) w h"])
       (simp_all add: Rectangle render_shape_def Rectangle_render_shape_def
          Context_rectangle_def Let_def)
qed

text \<open>The statements of \<^verbatim>\<open>render\<close> that follow \<^verbatim>\<open>render_shape\<close>.\<close>

lemma paint_statements:
  assumes "saved c = g0 # rest"
  shows "statements [fill_pass self, Context_set_source_rgb (sr, sg, sb),
           Context_set_line_width w, Context_stroke, Context_restore] c =
         (Inr (),
          c\<lparr>gs := g0, saved := rest, current_path := [],
            painted := painted c @
              (case fill_color self of None \<Rightarrow> []
               | Some (fr, fg, fb) \<Rightarrow>
                   [Filled (current_path c) (clamp01 fr, clamp01 fg, clamp01 fb)]) @
              [Stroked (current_path c) (clamp01 sr, clamp01 sg, clamp01 sb) w],
            trace := trace c @
              (case fill_color self of None \<Rightarrow> []
               | Some (fr, fg, fb) \<Rightarrow> [SetSourceRGB fr fg fb, FillPreserve]) @
              [SetSourceRGB sr sg sb, SetLineWidth w, Stroke, Restore]\<rparr>)"
  using assms
  by (simp add: fill_pass_def Context_set_source_rgb_def Context_fill_preserve_def
        Context_set_line_width_def Context_stroke_def Context_restore_def
      split: option.splits prod.splits)

text \<open>
  A run of \<^verbatim>\<open>render\<close> on a circle or a rectangle whose transform resolves to a
  matrix: the context it returns.
\<close>

lemma Primitive_render_complete:
  assumes m: "Transform_call (transform self) = Inr (PyMatrix m)"
      and s: "shape self \<noteq> Primitive"
      and k: "stroke_color self = (sr, sg, sb)"
  obtains g seg where
    "Primitive_render self ctx =
       (Inr (),
        ctx\<lparr>current_path := [],
            painted := painted ctx @
              (case fill_color self of None \<Rightarrow> []
               | Some (fr, fg, fb) \<Rightarrow>
                   [Filled (current_path ctx @ [(Matrix_multiply m (ctm (gs ctx)), seg)])
                      (clamp01 fr, clamp01 fg, clamp01 fb)]) @
              [Stroked (current_path ctx @ [(Matrix_multiply m (ctm (gs ctx)), seg)])
                 (clamp01 sr, clamp01 sg, clamp01 sb) (stroke_width self)],
            trace := trace ctx @ [Save, TransformBy m, g] @
              (case fill_color self of None \<Rightarrow> []
               | Some (fr, fg, fb) \<Rightarrow> [SetSourceRGB fr fg fb, FillPreserve]) @
              [SetSourceRGB sr sg sb, SetLineWidth (stroke_width self), Stroke, Restore]\<rparr>)"
    and "(\<exists>xc yc r a1 a2. g = Arc xc yc r a1 a2) \<or> (\<exists>x y w h. g = RectanglePath x y w h)"
proof -
  let ?c2 = "snd (Context_transform (PyMatrix m) (snd (Context_save ctx)))"
  from Transform_call_determinant [OF m] have d: "determinant m \<noteq> 0" by simp
  from render_shape_concrete [OF s, of ?c2] obtain g seg where
    r: "render_shape self ?c2 =
          (Inr (), ?c2\<lparr>current_path := current_path ?c2 @ [(ctm (gs ?c2), seg)],
                        trace := trace ?c2 @ [g]\<rparr>)" and
    g: "(\<exists>xc yc r a1 a2. g = Arc xc yc r a1 a2) \<or> (\<exists>x y w h. g = RectanglePath x y w h)"
    by blast
  let ?c3 = "?c2\<lparr>current_path := current_path ?c2 @ [(ctm (gs ?c2), seg)],
                 trace := trace ?c2 @ [g]\<rparr>"
  have sv: "saved ?c3 = gs ctx # saved ctx"
    using d by (simp add: Context_save_def Context_transform_def)
  from m r d have "Primitive_render self ctx =
      statements [fill_pass self, Context_set_source_rgb (stroke_color self),
        Context_set_line_width (stroke_width self), Context_stroke, Context_restore] ?c3"
    by (simp add: Primitive_render_def Context_save_def Context_transform_def)
  also have "\<dots> = (Inr (),
      ?c3\<lparr>gs := gs ctx, saved := saved ctx, current_path := [],
        painted := painted ?c3 @
          (case fill_color self of None \<Rightarrow> []
           | Some (fr, fg, fb) \<Rightarrow>
               [Filled (current_path ?c3) (clamp01 fr, clamp01 fg, clamp01 fb)]) @
          [Stroked (current_path ?c3) (clamp01 sr, clamp01 sg, clamp01 sb) (stroke_width self)],
        trace := trace ?c3 @
          (case fill_color self of None \<Rightarrow> []
           | Some (fr, fg, fb) \<Rightarrow> [SetSourceRGB fr fg fb, FillPreserve]) @
          [SetSourceRGB sr sg sb, SetLineWidth (stroke_width self), Stroke, Restore]\<rparr>)"
    unfolding k by (rule paint_statements [OF sv])
  finally have "Primitive_render self ctx =
       (Inr (),
        ctx\<lparr>current_path := [],
            painted := painted ctx @
              (case fill_color self of None \<Rightarrow> []
               | Some (fr, fg, fb) \<Rightarrow>
                   [Filled (current_path ctx @ [(Matrix_multiply m (ctm (gs ctx)), seg)])
                      (clamp01 fr, clamp01 fg, clamp01 fb)]) @
              [Stroked (current_path ctx @ [(Matrix_multiply m (ctm (gs ctx)), seg)])
                 (clamp01 sr, clamp01 sg, clamp01 sb) (stroke_width self)],
            trace := trace ctx @ [Save, TransformBy m, g] @
              (case fill_color self of None \<Rightarrow> []
               | Some (fr, fg, fb) \<Rightarrow> [SetSourceRGB fr fg fb, FillPreserve]) @
              [SetSourceRGB sr sg sb, SetLineWidth (stroke_width self), Stroke, Restore]\<rparr>)"
    using d by (simp add: Context_save_def Context_transform_def split: option.splits)
  from this g show ?thesis by (rule that)
qed

text \<open>
  With a reflection as its transform, \<^verbatim>\<open>render\<close> gets \<^verbatim>\<open>None\<close> for the matrix,
  calls \<^verbatim>\<open>save\<close>, and raises in \<^verbatim>\<open>ctx.transform\<close>.
\<close>

lemma Primitive_render_Reflect:
  assumes "transform self = ReflectX \<or> transform self = ReflectY"
  shows "Primitive_render self ctx =
           (Inl TypeError, ctx\<lparr>saved := gs ctx # saved ctx, trace := trace ctx @ [Save]\<rparr>)"
  using assms
  by (auto simp: Primitive_render_def Matrix_scale_def Context_save_def Context_transform_def)

text \<open>Rendering a new circle of radius 1, with a fill colour or without.\<close>

lemma Primitive_render_circle:
  "Primitive_render ((Primitive_init (Circle 1 (Complex 0 0)))\<lparr>fill_color := f\<rparr>) Context_init =
     (Inr (),
      Context_init
        \<lparr>painted :=
           (case f of None \<Rightarrow> []
            | Some (fr, fg, fb) \<Rightarrow>
                [Filled [(Matrix, ArcAt 0 0 1 0 (2 * pi))] (clamp01 fr, clamp01 fg, clamp01 fb)]) @
           [Stroked [(Matrix, ArcAt 0 0 1 0 (2 * pi))] (0, 0, 0) 0.01],
         trace :=
           [Save, TransformBy Matrix, Arc 0 0 1 0 (2 * pi)] @
           (case f of None \<Rightarrow> [] | Some (fr, fg, fb) \<Rightarrow> [SetSourceRGB fr fg fb, FillPreserve]) @
           [SetSourceRGB 0 0 0, SetLineWidth 0.01, Stroke, Restore]\<rparr>)"
proof -
  have d: "determinant Matrix \<noteq> 0"
    by (simp add: determinant_def Matrix_def)
  show ?thesis
    using d
    by (simp add: Primitive_render_def Primitive_init_def Context_init_def Context_save_def
          Context_transform_def render_shape_def Circle_render_shape_def Context_arc_def
          fill_pass_def Context_set_source_rgb_def Context_fill_preserve_def
          Context_set_line_width_def Context_stroke_def Context_restore_def
          Matrix_multiply_Matrix_left clamp01_def
        split: option.splits)
qed

text \<open>
  Claim C5. When \<^verbatim>\<open>render\<close> runs on a circle or a rectangle whose transform resolves
  to a matrix \<open>m\<close>, it returns, and the calls it has made are \<^verbatim>\<open>save\<close>,
  \<^verbatim>\<open>transform(m)\<close>, the call of the geometry, then, if and only if a fill colour is
  set, \<^verbatim>\<open>set_source_rgb\<close> with the fill colour and \<^verbatim>\<open>fill_preserve\<close>, then in every
  case \<^verbatim>\<open>set_source_rgb\<close> with the stroke colour, \<^verbatim>\<open>set_line_width\<close> with the
  stroke width, \<^verbatim>\<open>stroke\<close> and \<^verbatim>\<open>restore\<close>. The fill, when there is one, and the
  stroke paint the same path. Without a fill colour the run raises nothing and paints the
  stroke only.
\<close>

theorem render_fill_iff_fill_color:
  assumes "Transform_call (transform self) = Inr (PyMatrix m)"
      and "shape self \<noteq> Primitive"
      and "stroke_color self = (sr, sg, sb)"
  shows "\<exists>ctx' g pth.
           Primitive_render self ctx = (Inr (), ctx') \<and>
           trace ctx' = trace ctx @ [Save, TransformBy m, g] @
              (case fill_color self of None \<Rightarrow> []
               | Some (fr, fg, fb) \<Rightarrow> [SetSourceRGB fr fg fb, FillPreserve]) @
              [SetSourceRGB sr sg sb, SetLineWidth (stroke_width self), Stroke, Restore] \<and>
           ((\<exists>xc yc r a1 a2. g = Arc xc yc r a1 a2) \<or> (\<exists>x y w h. g = RectanglePath x y w h)) \<and>
           painted ctx' = painted ctx @
              (case fill_color self of None \<Rightarrow> []
               | Some (fr, fg, fb) \<Rightarrow> [Filled pth (clamp01 fr, clamp01 fg, clamp01 fb)]) @
              [Stroked pth (clamp01 sr, clamp01 sg, clamp01 sb) (stroke_width self)] \<and>
           (FillPreserve \<in> set (drop (length (trace ctx)) (trace ctx')) \<longleftrightarrow>
              fill_color self \<noteq> None) \<and>
           Stroke \<in> set (drop (length (trace ctx)) (trace ctx'))"
proof -
  from Primitive_render_complete [OF assms, of ctx] obtain g seg where
    r: "Primitive_render self ctx =
       (Inr (),
        ctx\<lparr>current_path := [],
            painted := painted ctx @
              (case fill_color self of None \<Rightarrow> []
               | Some (fr, fg, fb) \<Rightarrow>
                   [Filled (current_path ctx @ [(Matrix_multiply m (ctm (gs ctx)), seg)])
                      (clamp01 fr, clamp01 fg, clamp01 fb)]) @
              [Stroked (current_path ctx @ [(Matrix_multiply m (ctm (gs ctx)), seg)])
                 (clamp01 sr, clamp01 sg, clamp01 sb) (stroke_width self)],
            trace := trace ctx @ [Save, TransformBy m, g] @
              (case fill_color self of None \<Rightarrow> []
               | Some (fr, fg, fb) \<Rightarrow> [SetSourceRGB fr fg fb, FillPreserve]) @
              [SetSourceRGB sr sg sb, SetLineWidth (stroke_width self), Stroke, Restore]\<rparr>)" and
    g: "(\<exists>xc yc r a1 a2. g = Arc xc yc r a1 a2) \<or> (\<exists>x y w h. g = RectanglePath x y w h)"
    by blast
  from g have n: "g \<noteq> FillPreserve" by auto
  show ?thesis
  proof (cases "fill_color self")
    case None
    with g n show ?thesis
      by (intro exI [of _ "snd (Primitive_render self ctx)"] exI [of _ g]
            exI [of _ "current_path ctx @ [(Matrix_multiply m (ctm (gs ctx)), seg)]"])
         (simp add: r)
  next
    case (Some c)
    then obtain fr fg fb where "fill_color self = Some (fr, fg, fb)"
      by (cases c) simp
    with g n show ?thesis
      by (intro exI [of _ "snd (Primitive_render self ctx)"] exI [of _ g]
            exI [of _ "current_path ctx @ [(Matrix_multiply m (ctm (gs ctx)), seg)]"])
         (simp add: r)
  qed
qed

text \<open>The theorem on a new circle with the fill colour red, and on one without a fill colour.\<close>

theorem render_fill_iff_fill_color_witness:
  "Transform_call (transform ((Primitive_init (Circle 1 (Complex 0 0)))
      \<lparr>fill_color := Some (1, 0, 0)\<rparr>)) = Inr (PyMatrix Matrix) \<and>
   shape ((Primitive_init (Circle 1 (Complex 0 0)))\<lparr>fill_color := Some (1, 0, 0)\<rparr>) \<noteq> Primitive \<and>
   stroke_color ((Primitive_init (Circle 1 (Complex 0 0)))\<lparr>fill_color := Some (1, 0, 0)\<rparr>) =
     (0, 0, 0) \<and>
   fst (Primitive_render ((Primitive_init (Circle 1 (Complex 0 0)))
      \<lparr>fill_color := Some (1, 0, 0)\<rparr>) Context_init) = Inr () \<and>
   FillPreserve \<in> set (trace (snd (Primitive_render ((Primitive_init (Circle 1 (Complex 0 0)))
      \<lparr>fill_color := Some (1, 0, 0)\<rparr>) Context_init))) \<and>
   Stroke \<in> set (trace (snd (Primitive_render ((Primitive_init (Circle 1 (Complex 0 0)))
      \<lparr>fill_color := Some (1, 0, 0)\<rparr>) Context_init))) \<and>
   fst (Primitive_render (Primitive_init (Circle 1 (Complex 0 0))) Context_init) = Inr () \<and>
   FillPreserve \<notin> set (trace (snd (Primitive_render (Primitive_init (Circle 1 (Complex 0 0)))
      Context_init))) \<and>
   Stroke \<in> set (trace (snd (Primitive_render (Primitive_init (Circle 1 (Complex 0 0)))
      Context_init)))"
proof -
  let ?red = "(Primitive_init (Circle 1 (Complex 0 0)))\<lparr>fill_color := Some (1, 0, 0)\<rparr>"
  let ?plain = "Primitive_init (Circle 1 (Complex 0 0))"
  have t: "Transform_call (transform ?red) = Inr (PyMatrix Matrix)"
    and s: "shape ?red \<noteq> Primitive" and k: "stroke_color ?red = (0, 0, 0)"
    and t': "Transform_call (transform ?plain) = Inr (PyMatrix Matrix)"
    and s': "shape ?plain \<noteq> Primitive" and k': "stroke_color ?plain = (0, 0, 0)"
    by (simp_all add: Primitive_init_def)
  have e: "trace Context_init = []"
    by (simp add: Context_init_def)
  from render_fill_iff_fill_color [OF t s k, of Context_init] obtain a where
    "Primitive_render ?red Context_init = (Inr (), a)" and
    "FillPreserve \<in> set (drop (length (trace Context_init)) (trace a)) \<longleftrightarrow>
       fill_color ?red \<noteq> None" and
    "Stroke \<in> set (drop (length (trace Context_init)) (trace a))"
    by blast
  then have red: "fst (Primitive_render ?red Context_init) = Inr () \<and>
      FillPreserve \<in> set (trace (snd (Primitive_render ?red Context_init))) \<and>
      Stroke \<in> set (trace (snd (Primitive_render ?red Context_init)))"
    by (simp add: e)
  from render_fill_iff_fill_color [OF t' s' k', of Context_init] obtain b where
    "Primitive_render ?plain Context_init = (Inr (), b)" and
    "FillPreserve \<in> set (drop (length (trace Context_init)) (trace b)) \<longleftrightarrow>
       fill_color ?plain \<noteq> None" and
    "Stroke \<in> set (drop (length (trace Context_init)) (trace b))"
    by blast
  then have plain: "fst (Primitive_render ?plain Context_init) = Inr () \<and>
      FillPreserve \<notin> set (trace (snd (Primitive_render ?plain Context_init))) \<and>
      Stroke \<in> set (trace (snd (Primitive_render ?plain Context_init)))"
    by (simp add: e Primitive_init_def)
  from t s k red plain show ?thesis
    by blast
qed

text \<open>
  Claim C6. For a circle or a rectangle, the graphics state of the context (transformation
  matrix, paint source, line width) after \<^verbatim>\<open>render\<close> is its state before the call.
  The call returns exactly when the transform of the primitive resolves to a matrix; when
  it returns, the calls it has made are one \<^verbatim>\<open>save\<close>, calls that are neither
  \<^verbatim>\<open>save\<close> nor \<^verbatim>\<open>restore\<close>, and one \<^verbatim>\<open>restore\<close>, in this order, and the saved
  states of the context are those of before the call.
\<close>

theorem render_save_restore_bracket:
  assumes "shape self \<noteq> Primitive"
  shows "gs (snd (Primitive_render self ctx)) = gs ctx \<and>
         (fst (Primitive_render self ctx) = Inr () \<longleftrightarrow>
            (\<exists>m. Transform_call (transform self) = Inr (PyMatrix m))) \<and>
         (fst (Primitive_render self ctx) = Inr () \<longrightarrow>
            saved (snd (Primitive_render self ctx)) = saved ctx \<and>
            (\<exists>middle. trace (snd (Primitive_render self ctx)) =
                         trace ctx @ [Save] @ middle @ [Restore] \<and>
                       Save \<notin> set middle \<and> Restore \<notin> set middle))"
proof (cases "Transform_call (transform self)")
  case (Inl e)
  then show ?thesis by (simp add: Primitive_render_def)
next
  case (Inr v)
  show ?thesis
  proof (cases v)
    case PyNone
    with Inr show ?thesis
      by (simp add: Primitive_render_def Context_save_def Context_transform_def)
  next
    case (PyMatrix m)
    with Inr have m: "Transform_call (transform self) = Inr (PyMatrix m)" by simp
    obtain sr sg sb where k: "stroke_color self = (sr, sg, sb)"
      by (cases "stroke_color self") auto
    from Primitive_render_complete [OF m assms k, of ctx] obtain g seg where
      r: "Primitive_render self ctx =
       (Inr (),
        ctx\<lparr>current_path := [],
            painted := painted ctx @
              (case fill_color self of None \<Rightarrow> []
               | Some (fr, fg, fb) \<Rightarrow>
                   [Filled (current_path ctx @ [(Matrix_multiply m (ctm (gs ctx)), seg)])
                      (clamp01 fr, clamp01 fg, clamp01 fb)]) @
              [Stroked (current_path ctx @ [(Matrix_multiply m (ctm (gs ctx)), seg)])
                 (clamp01 sr, clamp01 sg, clamp01 sb) (stroke_width self)],
            trace := trace ctx @ [Save, TransformBy m, g] @
              (case fill_color self of None \<Rightarrow> []
               | Some (fr, fg, fb) \<Rightarrow> [SetSourceRGB fr fg fb, FillPreserve]) @
              [SetSourceRGB sr sg sb, SetLineWidth (stroke_width self), Stroke, Restore]\<rparr>)" and
      g: "(\<exists>xc yc r a1 a2. g = Arc xc yc r a1 a2) \<or> (\<exists>x y w h. g = RectanglePath x y w h)"
      by blast
    let ?middle = "[TransformBy m, g] @
              (case fill_color self of None \<Rightarrow> []
               | Some (fr, fg, fb) \<Rightarrow> [SetSourceRGB fr fg fb, FillPreserve]) @
              [SetSourceRGB sr sg sb, SetLineWidth (stroke_width self), Stroke]"
    from g have "trace (snd (Primitive_render self ctx)) = trace ctx @ [Save] @ ?middle @ [Restore] \<and>
                 Save \<notin> set ?middle \<and> Restore \<notin> set ?middle"
      by (auto simp: r split: option.splits)
    then have "\<exists>middle. trace (snd (Primitive_render self ctx)) =
                         trace ctx @ [Save] @ middle @ [Restore] \<and>
                       Save \<notin> set middle \<and> Restore \<notin> set middle"
      by (rule exI)
    with m show ?thesis by (simp add: r)
  qed
qed

text \<open>The theorem on a new circle and a new context.\<close>

theorem render_save_restore_bracket_witness:
  "shape (Primitive_init (Circle 1 (Complex 0 0))) \<noteq> Primitive \<and>
   Transform_call (transform (Primitive_init (Circle 1 (Complex 0 0)))) = Inr (PyMatrix Matrix) \<and>
   fst (Primitive_render (Primitive_init (Circle 1 (Complex 0 0))) Context_init) = Inr () \<and>
   gs (snd (Primitive_render (Primitive_init (Circle 1 (Complex 0 0))) Context_init)) =
     gs Context_init \<and>
   saved (snd (Primitive_render (Primitive_init (Circle 1 (Complex 0 0))) Context_init)) = [] \<and>
   trace (snd (Primitive_render (Primitive_init (Circle 1 (Complex 0 0))) Context_init)) =
     [Save, TransformBy Matrix, Arc 0 0 1 0 (2 * pi), SetSourceRGB 0 0 0, SetLineWidth 0.01,
      Stroke, Restore]"
proof -
  let ?plain = "Primitive_init (Circle 1 (Complex 0 0))"
  have s: "shape ?plain \<noteq> Primitive"
    and t: "Transform_call (transform ?plain) = Inr (PyMatrix Matrix)"
    by (simp_all add: Primitive_init_def)
  from t have ex: "\<exists>m. Transform_call (transform ?plain) = Inr (PyMatrix m)" ..
  have e: "saved Context_init = []"
    by (simp add: Context_init_def)
  from render_save_restore_bracket [OF s, of Context_init] ex
  have "gs (snd (Primitive_render ?plain Context_init)) = gs Context_init"
    and "fst (Primitive_render ?plain Context_init) = Inr ()"
    and "saved (snd (Primitive_render ?plain Context_init)) = saved Context_init"
    by blast+
  moreover have "trace (snd (Primitive_render ?plain Context_init)) =
     [Save, TransformBy Matrix, Arc 0 0 1 0 (2 * pi), SetSourceRGB 0 0 0, SetLineWidth 0.01,
      Stroke, Restore]"
    using Primitive_render_circle [of None] by (simp add: Context_init_def Primitive_init_def)
  ultimately show ?thesis
    using s t e by simp
qed

end
